theory Spec2Isabelle
  imports Main "HOL-Library.Word"
begin

section \<open>Data model of store/types/gas.go\<close>

text \<open>
  \<^verbatim>\<open>type Gas = uint64\<close>: an unsigned 64-bit machine integer; \<open>+\<close> and \<open>-\<close> on
  \<open>64 word\<close> wrap around exactly as Go's do, \<open>unat\<close> reads the value.
\<close>

type_synonym Gas = "64 word"

text \<open>
  \<^verbatim>\<open>type GasReport = map[string]Gas\<close>. The contents of a map are a partial function from
  descriptors to gas. A field of this type can also hold Go's \<^verbatim>\<open>nil\<close> map, which reads like
  the empty map and panics on assignment; the field is therefore an \<open>option\<close>, with
  \<open>None\<close> for \<^verbatim>\<open>nil\<close>.
\<close>

type_synonym GasReport = "string \<rightharpoonup> Gas"

text \<open>
  The three panic payloads of the file, each carrying its descriptor, and the panic of the
  Go runtime for an assignment to an entry of a \<^verbatim>\<open>nil\<close> map.
\<close>

datatype panic =
    ErrorNegativeGasConsumed string
  | ErrorOutOfGas string
  | ErrorGasOverflow string
  | RuntimeNilMapAssignment

record infiniteGasMeter =
  consumed :: Gas

record basicGasMeter =
  limit :: Gas
  consumed :: Gas
  costBreakdownEnabled :: bool
  report :: "GasReport option"

record GasConfig =
  HasCost :: Gas
  DeleteCost :: Gas
  ReadCostFlat :: Gas
  ReadCostPerByte :: Gas
  WriteCostFlat :: Gas
  WriteCostPerByte :: Gas
  IterNextCostFlat :: Gas

text \<open>\<^verbatim>\<open>math.MaxUint64\<close>, the constant \<open>1<<64 - 1\<close> of Go's standard library.\<close>

definition MaxUint64 :: Gas where
  "MaxUint64 = 0xFFFFFFFFFFFFFFFF"

text \<open>
  The read \<^verbatim>\<open>m[k]\<close> of a Go map: the zero value for a key that is absent (and for every key
  of the \<^verbatim>\<open>nil\<close> map).
\<close>

definition index_GasReport :: "GasReport \<Rightarrow> string \<Rightarrow> Gas" where
  "index_GasReport m k = (case m k of None \<Rightarrow> 0 | Some v \<Rightarrow> v)"

section \<open>The bounded meter\<close>

text \<open>
  A method with a pointer receiver that mutates the meter and may panic is a function from
  the meter to the meter as the call leaves it, paired with the panic raised, if any. The
  meter is returned on the panicking paths as well, because the fields written before the
  \<^verbatim>\<open>panic\<close> statement stay written.
\<close>

definition NewGasMeter :: "Gas \<Rightarrow> bool \<Rightarrow> basicGasMeter" where
  "NewGasMeter lim enabled =
     (if enabled
      then \<lparr>limit = lim, consumed = 0, costBreakdownEnabled = True, report = Some Map.empty\<rparr>
      else \<lparr>limit = lim, consumed = 0, costBreakdownEnabled = False, report = None\<rparr>)"

definition basicGasMeter_GasConsumed :: "basicGasMeter \<Rightarrow> Gas" where
  "basicGasMeter_GasConsumed g = basicGasMeter.consumed g"

definition basicGasMeter_Limit :: "basicGasMeter \<Rightarrow> Gas" where
  "basicGasMeter_Limit g = limit g"

definition basicGasMeter_IsPastLimit :: "basicGasMeter \<Rightarrow> bool" where
  "basicGasMeter_IsPastLimit g = (basicGasMeter.consumed g > limit g)"

definition basicGasMeter_IsOutOfGas :: "basicGasMeter \<Rightarrow> bool" where
  "basicGasMeter_IsOutOfGas g = (basicGasMeter.consumed g \<ge> limit g)"

definition basicGasMeter_GasConsumedToLimit :: "basicGasMeter \<Rightarrow> Gas" where
  "basicGasMeter_GasConsumedToLimit g =
     (if basicGasMeter_IsPastLimit g then limit g else basicGasMeter.consumed g)"

definition addUint64Overflow :: "64 word \<Rightarrow> 64 word \<Rightarrow> 64 word \<times> bool" where
  "addUint64Overflow a b = (if MaxUint64 - a < b then (0, True) else (a + b, False))"

definition basicGasMeter_ConsumeGas ::
  "basicGasMeter \<Rightarrow> Gas \<Rightarrow> string \<Rightarrow> basicGasMeter \<times> panic option" where
  "basicGasMeter_ConsumeGas g amount descriptor =
     (let (c, overflow) = addUint64Overflow (basicGasMeter.consumed g) amount;
          g1 = g\<lparr>basicGasMeter.consumed := c\<rparr>
      in if overflow
         then (g1\<lparr>basicGasMeter.consumed := MaxUint64\<rparr>, Some (ErrorGasOverflow descriptor))
         else if basicGasMeter.consumed g1 > limit g1
         then (g1, Some (ErrorOutOfGas descriptor))
         else if costBreakdownEnabled g1
         then (case report g1 of
                 None \<Rightarrow> (g1, Some RuntimeNilMapAssignment)
               | Some m \<Rightarrow>
                   (g1\<lparr>report := Some (m(descriptor \<mapsto> index_GasReport m descriptor + amount))\<rparr>,
                    None))
         else (g1, None))"

definition basicGasMeter_RefundGas ::
  "basicGasMeter \<Rightarrow> Gas \<Rightarrow> string \<Rightarrow> basicGasMeter \<times> panic option" where
  "basicGasMeter_RefundGas g amount descriptor =
     (if basicGasMeter.consumed g < amount
      then (g, Some (ErrorNegativeGasConsumed descriptor))
      else let g1 = g\<lparr>basicGasMeter.consumed := basicGasMeter.consumed g - amount\<rparr>
           in if costBreakdownEnabled g1
              then (case report g1 of
                      None \<Rightarrow> (g1, Some RuntimeNilMapAssignment)
                    | Some m \<Rightarrow>
                        (g1\<lparr>report :=
                               Some (m(descriptor \<mapsto> index_GasReport m descriptor - amount))\<rparr>,
                         None))
              else (g1, None))"

definition basicGasMeter_Report :: "basicGasMeter \<Rightarrow> GasReport option" where
  "basicGasMeter_Report g = report g"

section \<open>The unbounded meter\<close>

definition NewInfiniteGasMeter :: infiniteGasMeter where
  "NewInfiniteGasMeter = \<lparr>infiniteGasMeter.consumed = 0\<rparr>"

definition infiniteGasMeter_GasConsumed :: "infiniteGasMeter \<Rightarrow> Gas" where
  "infiniteGasMeter_GasConsumed g = infiniteGasMeter.consumed g"

definition infiniteGasMeter_GasConsumedToLimit :: "infiniteGasMeter \<Rightarrow> Gas" where
  "infiniteGasMeter_GasConsumedToLimit g = infiniteGasMeter.consumed g"

definition infiniteGasMeter_Limit :: "infiniteGasMeter \<Rightarrow> Gas" where
  "infiniteGasMeter_Limit g = 0"

definition infiniteGasMeter_ConsumeGas ::
  "infiniteGasMeter \<Rightarrow> Gas \<Rightarrow> string \<Rightarrow> infiniteGasMeter \<times> panic option" where
  "infiniteGasMeter_ConsumeGas g amount descriptor =
     (let (c, overflow) = addUint64Overflow (infiniteGasMeter.consumed g) amount;
          g1 = g\<lparr>infiniteGasMeter.consumed := c\<rparr>
      in if overflow then (g1, Some (ErrorGasOverflow descriptor)) else (g1, None))"

definition infiniteGasMeter_RefundGas ::
  "infiniteGasMeter \<Rightarrow> Gas \<Rightarrow> string \<Rightarrow> infiniteGasMeter \<times> panic option" where
  "infiniteGasMeter_RefundGas g amount descriptor =
     (if infiniteGasMeter.consumed g < amount
      then (g, Some (ErrorNegativeGasConsumed descriptor))
      else (g\<lparr>infiniteGasMeter.consumed := infiniteGasMeter.consumed g - amount\<rparr>, None))"

definition infiniteGasMeter_IsPastLimit :: "infiniteGasMeter \<Rightarrow> bool" where
  "infiniteGasMeter_IsPastLimit g = False"

definition infiniteGasMeter_IsOutOfGas :: "infiniteGasMeter \<Rightarrow> bool" where
  "infiniteGasMeter_IsOutOfGas g = False"

definition infiniteGasMeter_Report :: "infiniteGasMeter \<Rightarrow> GasReport option" where
  "infiniteGasMeter_Report g = None"

section \<open>Cost configuration\<close>

definition KVGasConfig :: GasConfig where
  "KVGasConfig =
     \<lparr>HasCost = 1000, DeleteCost = 1000, ReadCostFlat = 1000, ReadCostPerByte = 3,
      WriteCostFlat = 2000, WriteCostPerByte = 30, IterNextCostFlat = 30\<rparr>"

definition TransientGasConfig :: GasConfig where
  "TransientGasConfig =
     \<lparr>HasCost = 100, DeleteCost = 100, ReadCostFlat = 100, ReadCostPerByte = 0,
      WriteCostFlat = 200, WriteCostPerByte = 3, IterNextCostFlat = 3\<rparr>"

section \<open>Sequences of calls on a bounded meter\<close>

text \<open>
  A caller's sequence of \<^verbatim>\<open>ConsumeGas\<close> and \<^verbatim>\<open>RefundGas\<close> calls. A panic unwinds the
  caller, so the calls after it are not made.
\<close>

datatype call = ConsumeGasCall Gas string | RefundGasCall Gas string

fun basicGasMeter_call :: "basicGasMeter \<Rightarrow> call \<Rightarrow> basicGasMeter \<times> panic option" where
  "basicGasMeter_call g (ConsumeGasCall amount descriptor) =
     basicGasMeter_ConsumeGas g amount descriptor"
| "basicGasMeter_call g (RefundGasCall amount descriptor) =
     basicGasMeter_RefundGas g amount descriptor"

fun basicGasMeter_calls :: "basicGasMeter \<Rightarrow> call list \<Rightarrow> basicGasMeter \<times> panic option" where
  "basicGasMeter_calls g [] = (g, None)"
| "basicGasMeter_calls g (c # cs) =
     (case basicGasMeter_call g c of
        (g', None) \<Rightarrow> basicGasMeter_calls g' cs
      | (g', Some e) \<Rightarrow> (g', Some e))"

text \<open>
  The unbounded running total of a sequence of calls, counted from \<open>s\<close>: every charge keeps
  the total at or below \<open>L\<close>, and every refund is at most the total at the time it is made.
\<close>

fun within_limit :: "nat \<Rightarrow> nat \<Rightarrow> call list \<Rightarrow> bool" where
  "within_limit L s [] = True"
| "within_limit L s (ConsumeGasCall amount descriptor # cs) =
     (s + unat amount \<le> L \<and> within_limit L (s + unat amount) cs)"
| "within_limit L s (RefundGasCall amount descriptor # cs) =
     (unat amount \<le> s \<and> within_limit L (s - unat amount) cs)"

fun charged :: "call list \<Rightarrow> nat" where
  "charged [] = 0"
| "charged (ConsumeGasCall amount descriptor # cs) = unat amount + charged cs"
| "charged (RefundGasCall amount descriptor # cs) = charged cs"

fun refunded :: "call list \<Rightarrow> nat" where
  "refunded [] = 0"
| "refunded (ConsumeGasCall amount descriptor # cs) = refunded cs"
| "refunded (RefundGasCall amount descriptor # cs) = unat amount + refunded cs"

section \<open>Allocated reports\<close>

text \<open>
  The state a meter built by \<open>NewGasMeter\<close> is in, and stays in: when the breakdown is
  enabled, the report is an allocated map, so the assignments to its entries do not panic.
\<close>

definition report_usable :: "basicGasMeter \<Rightarrow> bool" where
  "report_usable g = (costBreakdownEnabled g \<longrightarrow> report g \<noteq> None)"

section \<open>Unsigned 64-bit arithmetic of the meters\<close>

lemma unat_MaxUint64: "unat MaxUint64 = 2 ^ 64 - 1"
  by (simp add: MaxUint64_def)

lemma unat_Gas_less: "unat (a :: Gas) < 2 ^ 64"
  using unsigned_less [of a, where ?'a = nat] by simp

lemma unat_MaxUint64_minus: "unat (MaxUint64 - a) = 2 ^ 64 - 1 - unat a"
proof -
  have "unat a \<le> unat MaxUint64"
    using unat_Gas_less [of a] by (simp add: unat_MaxUint64)
  then have "a \<le> MaxUint64"
    by (simp add: word_le_nat_alt)
  then have "unat (MaxUint64 - a) = unat MaxUint64 - unat a"
    by (rule unat_sub)
  then show ?thesis
    by (simp add: unat_MaxUint64)
qed

lemma overflow_test_iff: "MaxUint64 - a < b \<longleftrightarrow> 2 ^ 64 \<le> unat a + unat b"
  using unat_Gas_less [of a] by (simp add: word_less_nat_alt unat_MaxUint64_minus) arith

lemma unat_add_no_overflow:
  "unat a + unat b < 2 ^ 64 \<Longrightarrow> unat (a + b :: Gas) = unat a + unat b"
  by (simp add: unat_word_ariths)

lemma addUint64Overflow_overflow:
  "2 ^ 64 \<le> unat a + unat b \<Longrightarrow> addUint64Overflow a b = (0, True)"
  by (simp add: addUint64Overflow_def overflow_test_iff)

lemma addUint64Overflow_sum:
  "unat a + unat b < 2 ^ 64 \<Longrightarrow> addUint64Overflow a b = (a + b, False)"
  by (simp add: addUint64Overflow_def overflow_test_iff)

section \<open>Single calls that stay within the limit\<close>

lemma limit_no_overflow:
  "unat (basicGasMeter.consumed g) + unat a \<le> unat (limit g) \<Longrightarrow>
   unat (basicGasMeter.consumed g) + unat a < 2 ^ 64"
  using unat_Gas_less [of "limit g"] by arith

lemma ConsumeGas_within_limit:
  assumes "unat (basicGasMeter.consumed g) + unat a \<le> unat (limit g)"
    and "report_usable g"
  shows "snd (basicGasMeter_ConsumeGas g a d) = None"
    and "basicGasMeter.consumed (fst (basicGasMeter_ConsumeGas g a d)) = basicGasMeter.consumed g + a"
    and "limit (fst (basicGasMeter_ConsumeGas g a d)) = limit g"
    and "report_usable (fst (basicGasMeter_ConsumeGas g a d))"
proof -
  have sum: "addUint64Overflow (basicGasMeter.consumed g) a = (basicGasMeter.consumed g + a, False)"
    using assms(1) by (intro addUint64Overflow_sum limit_no_overflow)
  have le: "\<not> limit g < basicGasMeter.consumed g + a"
    using assms(1) limit_no_overflow [OF assms(1)]
    by (simp add: word_less_nat_alt unat_add_no_overflow)
  show "snd (basicGasMeter_ConsumeGas g a d) = None"
    using assms(2) by (auto simp: basicGasMeter_ConsumeGas_def sum le report_usable_def Let_def split: option.splits)
  show "basicGasMeter.consumed (fst (basicGasMeter_ConsumeGas g a d)) = basicGasMeter.consumed g + a"
    by (simp add: basicGasMeter_ConsumeGas_def sum le Let_def split: option.splits)
  show "limit (fst (basicGasMeter_ConsumeGas g a d)) = limit g"
    by (simp add: basicGasMeter_ConsumeGas_def sum le Let_def split: option.splits)
  show "report_usable (fst (basicGasMeter_ConsumeGas g a d))"
    using assms(2) by (auto simp: basicGasMeter_ConsumeGas_def sum le report_usable_def Let_def split: option.splits)
qed

lemma RefundGas_within_consumed:
  assumes "unat a \<le> unat (basicGasMeter.consumed g)"
    and "report_usable g"
  shows "snd (basicGasMeter_RefundGas g a d) = None"
    and "basicGasMeter.consumed (fst (basicGasMeter_RefundGas g a d)) = basicGasMeter.consumed g - a"
    and "limit (fst (basicGasMeter_RefundGas g a d)) = limit g"
    and "report_usable (fst (basicGasMeter_RefundGas g a d))"
proof -
  have ge: "\<not> basicGasMeter.consumed g < a"
    using assms(1) by (simp add: word_less_nat_alt)
  show "snd (basicGasMeter_RefundGas g a d) = None"
    using assms(2) by (auto simp: basicGasMeter_RefundGas_def ge report_usable_def Let_def split: option.splits)
  show "basicGasMeter.consumed (fst (basicGasMeter_RefundGas g a d)) = basicGasMeter.consumed g - a"
    by (simp add: basicGasMeter_RefundGas_def ge Let_def split: option.splits)
  show "limit (fst (basicGasMeter_RefundGas g a d)) = limit g"
    by (simp add: basicGasMeter_RefundGas_def ge Let_def split: option.splits)
  show "report_usable (fst (basicGasMeter_RefundGas g a d))"
    using assms(2) by (auto simp: basicGasMeter_RefundGas_def ge report_usable_def Let_def split: option.splits)
qed

lemma calls_step:
  "snd (basicGasMeter_call g c) = None \<Longrightarrow>
   basicGasMeter_calls g (c # cs) = basicGasMeter_calls (fst (basicGasMeter_call g c)) cs"
  by (cases "basicGasMeter_call g c") simp

lemma calls_within_limit:
  assumes "within_limit (unat (limit g)) (unat (basicGasMeter.consumed g)) cs"
    and "report_usable g"
  shows "snd (basicGasMeter_calls g cs) = None \<and>
         int (unat (basicGasMeter.consumed (fst (basicGasMeter_calls g cs))))
           = int (unat (basicGasMeter.consumed g)) + int (charged cs) - int (refunded cs)"
  using assms
proof (induction cs arbitrary: g)
  case Nil
  then show ?case by simp
next
  case (Cons c cs)
  show ?case
  proof (cases c)
    case (ConsumeGasCall a d)
    let ?g = "fst (basicGasMeter_ConsumeGas g a d)"
    from Cons.prems ConsumeGasCall
    have fits: "unat (basicGasMeter.consumed g) + unat a \<le> unat (limit g)"
      and rest: "within_limit (unat (limit g)) (unat (basicGasMeter.consumed g) + unat a) cs"
      by simp_all
    note step = ConsumeGas_within_limit [OF fits Cons.prems(2), of d]
    have total: "unat (basicGasMeter.consumed ?g) = unat (basicGasMeter.consumed g) + unat a"
      using limit_no_overflow [OF fits] by (simp add: step(2) unat_add_no_overflow)
    have "within_limit (unat (limit ?g)) (unat (basicGasMeter.consumed ?g)) cs"
      using rest by (simp add: step(3) total)
    then have "snd (basicGasMeter_calls ?g cs) = None \<and>
         int (unat (basicGasMeter.consumed (fst (basicGasMeter_calls ?g cs))))
           = int (unat (basicGasMeter.consumed ?g)) + int (charged cs) - int (refunded cs)"
      using step(4) by (rule Cons.IH)
    moreover have "basicGasMeter_calls g (c # cs) = basicGasMeter_calls ?g cs"
      using step(1) by (simp add: ConsumeGasCall calls_step del: basicGasMeter_calls.simps)
    ultimately show ?thesis
      by (simp add: ConsumeGasCall total)
  next
    case (RefundGasCall a d)
    let ?g = "fst (basicGasMeter_RefundGas g a d)"
    from Cons.prems RefundGasCall
    have fits: "unat a \<le> unat (basicGasMeter.consumed g)"
      and rest: "within_limit (unat (limit g)) (unat (basicGasMeter.consumed g) - unat a) cs"
      by simp_all
    note step = RefundGas_within_consumed [OF fits Cons.prems(2), of d]
    have "a \<le> basicGasMeter.consumed g"
      using fits by (simp add: word_le_nat_alt)
    then have total: "unat (basicGasMeter.consumed ?g) = unat (basicGasMeter.consumed g) - unat a"
      by (simp add: step(2) unat_sub)
    have "within_limit (unat (limit ?g)) (unat (basicGasMeter.consumed ?g)) cs"
      using rest by (simp add: step(3) total)
    then have "snd (basicGasMeter_calls ?g cs) = None \<and>
         int (unat (basicGasMeter.consumed (fst (basicGasMeter_calls ?g cs))))
           = int (unat (basicGasMeter.consumed ?g)) + int (charged cs) - int (refunded cs)"
      using step(4) by (rule Cons.IH)
    moreover have "basicGasMeter_calls g (c # cs) = basicGasMeter_calls ?g cs"
      using step(1) by (simp add: RefundGasCall calls_step del: basicGasMeter_calls.simps)
    ultimately show ?thesis
      using fits by (simp add: RefundGasCall total)
  qed
qed

lemma NewGasMeter_fields:
  "limit (NewGasMeter L b) = L" "basicGasMeter.consumed (NewGasMeter L b) = 0"
  "report_usable (NewGasMeter L b)"
  by (simp_all add: NewGasMeter_def report_usable_def)

section \<open>Charges and refunds within the limit\<close>

text \<open>
  Claim C1. Take a bounded meter created by \<open>NewGasMeter\<close> with limit \<open>L\<close> (breakdown
  enabled or not) and any sequence of \<^verbatim>\<open>ConsumeGas\<close> and \<^verbatim>\<open>RefundGas\<close> calls such that the
  running sum of charges minus refunds never exceeds \<open>L\<close> and every refund is at most the
  sum at the time it is made (\<open>within_limit\<close>; since \<open>L\<close> is below \<open>2 ^ 64\<close>, no addition
  overflows). Then no call panics, and \<^verbatim>\<open>GasConsumed()\<close> afterwards is exactly the sum of
  the charged amounts minus the sum of the refunded amounts.
\<close>

theorem calls_within_limit_exact:
  assumes "within_limit (unat L) 0 cs"
  shows "snd (basicGasMeter_calls (NewGasMeter L b) cs) = None \<and>
         int (unat (basicGasMeter_GasConsumed (fst (basicGasMeter_calls (NewGasMeter L b) cs))))
           = int (charged cs) - int (refunded cs)"
  using calls_within_limit [of "NewGasMeter L b" cs] assms
  by (simp add: NewGasMeter_fields basicGasMeter_GasConsumed_def)

theorem calls_within_limit_exact_witness:
  "within_limit (unat (10 :: Gas)) 0
     [ConsumeGasCall 4 ''ReadFlat'', ConsumeGasCall 6 ''WriteFlat'', RefundGasCall 3 ''Delete'',
      ConsumeGasCall 2 ''Has'']
   \<and> snd (basicGasMeter_calls (NewGasMeter 10 True)
       [ConsumeGasCall 4 ''ReadFlat'', ConsumeGasCall 6 ''WriteFlat'', RefundGasCall 3 ''Delete'',
        ConsumeGasCall 2 ''Has'']) = None
   \<and> int (unat (basicGasMeter_GasConsumed (fst (basicGasMeter_calls (NewGasMeter 10 True)
       [ConsumeGasCall 4 ''ReadFlat'', ConsumeGasCall 6 ''WriteFlat'', RefundGasCall 3 ''Delete'',
        ConsumeGasCall 2 ''Has''])))) = 9"
proof -
  have h: "within_limit (unat (10 :: Gas)) 0
     [ConsumeGasCall 4 ''ReadFlat'', ConsumeGasCall 6 ''WriteFlat'', RefundGasCall 3 ''Delete'',
      ConsumeGasCall 2 ''Has'']"
    by simp
  from calls_within_limit_exact [OF h, of True] h show ?thesis
    by simp
qed

section \<open>Charging past the limit\<close>

text \<open>
  Claim C2. On a bounded meter, a \<^verbatim>\<open>ConsumeGas\<close> whose sum \<open>consumed + amount\<close> does not
  overflow 64 bits but is strictly above the limit panics with \<open>ErrorOutOfGas\<close> carrying the
  descriptor. The charge is applied all the same: afterwards \<^verbatim>\<open>GasConsumed()\<close> is the
  attempted total, above the limit, and \<^verbatim>\<open>GasConsumedToLimit()\<close> is exactly the limit.
\<close>

theorem ConsumeGas_past_limit:
  assumes "unat (basicGasMeter.consumed g) + unat amount < 2 ^ 64"
    and "unat (limit g) < unat (basicGasMeter.consumed g) + unat amount"
  shows "basicGasMeter_ConsumeGas g amount descriptor
           = (g\<lparr>basicGasMeter.consumed := basicGasMeter.consumed g + amount\<rparr>,
              Some (ErrorOutOfGas descriptor))
         \<and> unat (basicGasMeter_GasConsumed (fst (basicGasMeter_ConsumeGas g amount descriptor)))
           = unat (basicGasMeter.consumed g) + unat amount
         \<and> basicGasMeter_GasConsumedToLimit (fst (basicGasMeter_ConsumeGas g amount descriptor))
           = limit g"
proof -
  have sum: "addUint64Overflow (basicGasMeter.consumed g) amount
               = (basicGasMeter.consumed g + amount, False)"
    using assms(1) by (rule addUint64Overflow_sum)
  have past: "limit g < basicGasMeter.consumed g + amount"
    using assms by (simp add: word_less_nat_alt unat_add_no_overflow)
  have run: "basicGasMeter_ConsumeGas g amount descriptor
           = (g\<lparr>basicGasMeter.consumed := basicGasMeter.consumed g + amount\<rparr>,
              Some (ErrorOutOfGas descriptor))"
    by (simp add: basicGasMeter_ConsumeGas_def sum past)
  show ?thesis
    using assms(1) past
    by (simp add: run basicGasMeter_GasConsumed_def basicGasMeter_GasConsumedToLimit_def
        basicGasMeter_IsPastLimit_def unat_add_no_overflow)
qed

theorem ConsumeGas_past_limit_witness:
  "unat (basicGasMeter.consumed (NewGasMeter 10 False)) + unat (11 :: Gas) < 2 ^ 64
   \<and> unat (limit (NewGasMeter 10 False))
       < unat (basicGasMeter.consumed (NewGasMeter 10 False)) + unat (11 :: Gas)
   \<and> snd (basicGasMeter_ConsumeGas (NewGasMeter 10 False) 11 ''WriteFlat'')
       = Some (ErrorOutOfGas ''WriteFlat'')
   \<and> basicGasMeter_GasConsumed (fst (basicGasMeter_ConsumeGas (NewGasMeter 10 False) 11 ''WriteFlat''))
       = 11
   \<and> basicGasMeter_GasConsumedToLimit
        (fst (basicGasMeter_ConsumeGas (NewGasMeter 10 False) 11 ''WriteFlat''))
       = 10"
proof -
  have h1: "unat (basicGasMeter.consumed (NewGasMeter 10 False)) + unat (11 :: Gas) < 2 ^ 64"
    by (simp add: NewGasMeter_def)
  have h2: "unat (limit (NewGasMeter 10 False))
       < unat (basicGasMeter.consumed (NewGasMeter 10 False)) + unat (11 :: Gas)"
    by (simp add: NewGasMeter_def)
  from ConsumeGas_past_limit [OF h1 h2, of "''WriteFlat''"] h1 h2 show ?thesis
    by (auto simp: NewGasMeter_def basicGasMeter_GasConsumed_def)
qed

section \<open>Overflow of the bounded meter\<close>

text \<open>
  Claim C3. On a bounded meter, a \<^verbatim>\<open>ConsumeGas\<close> whose sum \<open>consumed + amount\<close> does not
  fit in 64 bits panics with \<open>ErrorGasOverflow\<close> carrying the descriptor, after setting
  \<open>consumed\<close> to \<open>MaxUint64\<close>: \<^verbatim>\<open>GasConsumed()\<close> afterwards is \<open>2 ^ 64 - 1\<close>, not the
  wrapped sum.
\<close>

theorem ConsumeGas_overflow:
  assumes "2 ^ 64 \<le> unat (basicGasMeter.consumed g) + unat amount"
  shows "basicGasMeter_ConsumeGas g amount descriptor
           = (g\<lparr>basicGasMeter.consumed := MaxUint64\<rparr>, Some (ErrorGasOverflow descriptor))
         \<and> unat (basicGasMeter_GasConsumed (fst (basicGasMeter_ConsumeGas g amount descriptor)))
           = 2 ^ 64 - 1"
proof -
  have "addUint64Overflow (basicGasMeter.consumed g) amount = (0, True)"
    using assms by (rule addUint64Overflow_overflow)
  then have "basicGasMeter_ConsumeGas g amount descriptor
           = (g\<lparr>basicGasMeter.consumed := MaxUint64\<rparr>, Some (ErrorGasOverflow descriptor))"
    by (simp add: basicGasMeter_ConsumeGas_def)
  then show ?thesis
    by (simp add: basicGasMeter_GasConsumed_def unat_MaxUint64)
qed

theorem ConsumeGas_overflow_witness:
  "2 ^ 64 \<le> unat (basicGasMeter.consumed
                 \<lparr>limit = 100, consumed = MaxUint64 - 1, costBreakdownEnabled = False,
                  report = None\<rparr>) + unat (5 :: Gas)
   \<and> basicGasMeter_ConsumeGas
        \<lparr>limit = 100, consumed = MaxUint64 - 1, costBreakdownEnabled = False, report = None\<rparr>
        5 ''ReadPerByte''
     = (\<lparr>limit = 100, consumed = 18446744073709551615, costBreakdownEnabled = False,
         report = None\<rparr>, Some (ErrorGasOverflow ''ReadPerByte''))"
proof -
  have h: "2 ^ 64 \<le> unat (basicGasMeter.consumed
                 \<lparr>limit = 100, consumed = MaxUint64 - 1, costBreakdownEnabled = False,
                  report = None\<rparr>) + unat (5 :: Gas)"
    by (simp add: MaxUint64_def)
  from ConsumeGas_overflow [OF h, of "''ReadPerByte''"] h show ?thesis
    by (simp add: MaxUint64_def)
qed

section \<open>Overflow of the unbounded meter\<close>

text \<open>
  Every case of \<^verbatim>\<open>infiniteGasMeter.ConsumeGas\<close>: it panics exactly when the sum does not
  fit in 64 bits, always with \<open>ErrorGasOverflow\<close>, and on that path \<open>consumed\<close> holds the
  \<open>0\<close> that \<open>addUint64Overflow\<close> returned with its overflow flag.
\<close>

lemma infiniteGasMeter_ConsumeGas_cases:
  "infiniteGasMeter_ConsumeGas g amount descriptor =
     (if 2 ^ 64 \<le> unat (infiniteGasMeter.consumed g) + unat amount
      then (g\<lparr>infiniteGasMeter.consumed := 0\<rparr>, Some (ErrorGasOverflow descriptor))
      else (g\<lparr>infiniteGasMeter.consumed := infiniteGasMeter.consumed g + amount\<rparr>, None))"
  by (simp add: infiniteGasMeter_ConsumeGas_def addUint64Overflow_def overflow_test_iff)

text \<open>
  Claim C4 says that after the overflow panic of the unbounded meter \<^verbatim>\<open>GasConsumed()\<close>
  returns the maximum 64-bit value, as the bounded meter does. The unbounded meter with
  \<open>consumed = MaxUint64 - 1\<close> charged \<open>5\<close> panics with \<open>ErrorGasOverflow\<close>, but is left
  with \<open>consumed = 0\<close>: the assignment of \<open>MaxUint64\<close> that the bounded meter makes
  before its panic is missing here.
\<close>

theorem infiniteGasMeter_ConsumeGas_overflow_resets:
  "infiniteGasMeter_ConsumeGas \<lparr>infiniteGasMeter.consumed = MaxUint64 - 1\<rparr> 5 ''WriteFlat''
     = (\<lparr>infiniteGasMeter.consumed = 0\<rparr>, Some (ErrorGasOverflow ''WriteFlat''))
   \<and> infiniteGasMeter_GasConsumed
       (fst (infiniteGasMeter_ConsumeGas \<lparr>infiniteGasMeter.consumed = MaxUint64 - 1\<rparr> 5
              ''WriteFlat'')) = 0
   \<and> infiniteGasMeter_GasConsumed
       (fst (infiniteGasMeter_ConsumeGas \<lparr>infiniteGasMeter.consumed = MaxUint64 - 1\<rparr> 5
              ''WriteFlat'')) \<noteq> MaxUint64"
  by (simp add: infiniteGasMeter_ConsumeGas_def addUint64Overflow_def MaxUint64_def
      infiniteGasMeter_GasConsumed_def)

section \<open>The two limit predicates\<close>

text \<open>
  Claim C5. For every bounded meter, \<^verbatim>\<open>IsOutOfGas()\<close> is true if and only if
  \<open>consumed \<ge> limit\<close> and \<^verbatim>\<open>IsPastLimit()\<close> is true if and only if \<open>consumed > limit\<close>, as
  unsigned numbers; with \<open>consumed\<close> equal to \<open>limit\<close>, \<^verbatim>\<open>IsOutOfGas()\<close> is true and
  \<^verbatim>\<open>IsPastLimit()\<close> is false.
\<close>

theorem IsOutOfGas_IsPastLimit:
  "(basicGasMeter_IsOutOfGas g \<longleftrightarrow> unat (limit g) \<le> unat (basicGasMeter.consumed g))
   \<and> (basicGasMeter_IsPastLimit g \<longleftrightarrow> unat (limit g) < unat (basicGasMeter.consumed g))
   \<and> (basicGasMeter.consumed g = limit g \<longrightarrow>
        basicGasMeter_IsOutOfGas g \<and> \<not> basicGasMeter_IsPastLimit g)"
  by (simp add: basicGasMeter_IsOutOfGas_def basicGasMeter_IsPastLimit_def
      word_le_nat_alt word_less_nat_alt)

theorem IsOutOfGas_IsPastLimit_witness:
  "basicGasMeter.consumed (fst (basicGasMeter_ConsumeGas (NewGasMeter 7 False) 7 ''Has''))
     = limit (fst (basicGasMeter_ConsumeGas (NewGasMeter 7 False) 7 ''Has''))
   \<and> basicGasMeter_IsOutOfGas (fst (basicGasMeter_ConsumeGas (NewGasMeter 7 False) 7 ''Has''))
   \<and> \<not> basicGasMeter_IsPastLimit (fst (basicGasMeter_ConsumeGas (NewGasMeter 7 False) 7 ''Has''))"
proof -
  have h: "basicGasMeter.consumed (fst (basicGasMeter_ConsumeGas (NewGasMeter 7 False) 7 ''Has''))
     = limit (fst (basicGasMeter_ConsumeGas (NewGasMeter 7 False) 7 ''Has''))"
    by (simp add: basicGasMeter_ConsumeGas_def NewGasMeter_def addUint64Overflow_def MaxUint64_def)
  from IsOutOfGas_IsPastLimit [of "fst (basicGasMeter_ConsumeGas (NewGasMeter 7 False) 7 ''Has'')"] h
  show ?thesis
    by blast
qed

section \<open>The report of a failing charge\<close>

text \<open>
  Claim C6. On a bounded meter with the breakdown enabled (and its report allocated), a
  \<^verbatim>\<open>ConsumeGas\<close> that panics, with \<open>ErrorGasOverflow\<close> or with \<open>ErrorOutOfGas\<close>, leaves
  the report as it was, although the same call writes \<open>consumed\<close> (\<open>MaxUint64\<close> on
  overflow, the sum past the limit otherwise). The entry of the descriptor grows by
  \<open>amount\<close> only in the remaining case, where the sum neither overflows nor exceeds the
  limit. So after a failing charge the report counts less than \<open>consumed\<close>.
\<close>

theorem ConsumeGas_report_on_success_only:
  assumes "costBreakdownEnabled g" and "report g = Some m"
  shows "(2 ^ 64 \<le> unat (basicGasMeter.consumed g) + unat amount \<longrightarrow>
            basicGasMeter_ConsumeGas g amount descriptor
              = (g\<lparr>basicGasMeter.consumed := MaxUint64\<rparr>, Some (ErrorGasOverflow descriptor)))
         \<and> (unat (basicGasMeter.consumed g) + unat amount < 2 ^ 64
            \<and> unat (limit g) < unat (basicGasMeter.consumed g) + unat amount \<longrightarrow>
            basicGasMeter_ConsumeGas g amount descriptor
              = (g\<lparr>basicGasMeter.consumed := basicGasMeter.consumed g + amount\<rparr>,
                 Some (ErrorOutOfGas descriptor)))
         \<and> (unat (basicGasMeter.consumed g) + unat amount \<le> unat (limit g) \<longrightarrow>
            basicGasMeter_ConsumeGas g amount descriptor
              = (g\<lparr>basicGasMeter.consumed := basicGasMeter.consumed g + amount,
                    report := Some (m(descriptor \<mapsto> index_GasReport m descriptor + amount))\<rparr>,
                 None))
         \<and> (snd (basicGasMeter_ConsumeGas g amount descriptor) \<noteq> None \<longrightarrow>
            basicGasMeter_Report (fst (basicGasMeter_ConsumeGas g amount descriptor)) = Some m)"
proof -
  let ?c = "unat (basicGasMeter.consumed g) + unat amount"
  have over: "basicGasMeter_ConsumeGas g amount descriptor
              = (g\<lparr>basicGasMeter.consumed := MaxUint64\<rparr>, Some (ErrorGasOverflow descriptor))"
    if "2 ^ 64 \<le> ?c"
    using addUint64Overflow_overflow [OF that] by (simp add: basicGasMeter_ConsumeGas_def)
  have past: "basicGasMeter_ConsumeGas g amount descriptor
              = (g\<lparr>basicGasMeter.consumed := basicGasMeter.consumed g + amount\<rparr>,
                 Some (ErrorOutOfGas descriptor))"
    if "?c < 2 ^ 64" and "unat (limit g) < ?c"
  proof -
    have "limit g < basicGasMeter.consumed g + amount"
      using that by (simp add: word_less_nat_alt unat_add_no_overflow)
    then show ?thesis
      using addUint64Overflow_sum [OF that(1)] by (simp add: basicGasMeter_ConsumeGas_def)
  qed
  have fits: "basicGasMeter_ConsumeGas g amount descriptor
              = (g\<lparr>basicGasMeter.consumed := basicGasMeter.consumed g + amount,
                    report := Some (m(descriptor \<mapsto> index_GasReport m descriptor + amount))\<rparr>,
                 None)"
    if "?c \<le> unat (limit g)"
  proof -
    have small: "?c < 2 ^ 64"
      using that by (rule limit_no_overflow)
    then have "\<not> limit g < basicGasMeter.consumed g + amount"
      using that by (simp add: word_less_nat_alt unat_add_no_overflow)
    then show ?thesis
      using addUint64Overflow_sum [OF small] assms
      by (simp add: basicGasMeter_ConsumeGas_def)
  qed
  have unchanged: "basicGasMeter_Report (fst (basicGasMeter_ConsumeGas g amount descriptor)) = Some m"
    if "snd (basicGasMeter_ConsumeGas g amount descriptor) \<noteq> None"
  proof -
    consider "2 ^ 64 \<le> ?c" | "?c < 2 ^ 64" "unat (limit g) < ?c" | "?c \<le> unat (limit g)"
      by linarith
    then show ?thesis
    proof cases
      case 1
      then show ?thesis by (simp add: over basicGasMeter_Report_def assms)
    next
      case 2
      then show ?thesis by (simp add: past basicGasMeter_Report_def assms)
    next
      case 3
      with that show ?thesis by (simp add: fits)
    qed
  qed
  from over past fits unchanged show ?thesis
    by blast
qed

theorem ConsumeGas_report_on_success_only_witness:
  "costBreakdownEnabled (fst (basicGasMeter_ConsumeGas (NewGasMeter 10 True) 4 ''ReadFlat''))
   \<and> report (fst (basicGasMeter_ConsumeGas (NewGasMeter 10 True) 4 ''ReadFlat''))
       = Some [''ReadFlat'' \<mapsto> 4]
   \<and> basicGasMeter_ConsumeGas
       (fst (basicGasMeter_ConsumeGas (NewGasMeter 10 True) 4 ''ReadFlat'')) 7 ''ReadFlat''
     = (\<lparr>limit = 10, consumed = 11, costBreakdownEnabled = True,
         report = Some [''ReadFlat'' \<mapsto> 4]\<rparr>, Some (ErrorOutOfGas ''ReadFlat''))"
proof -
  let ?g = "fst (basicGasMeter_ConsumeGas (NewGasMeter 10 True) 4 ''ReadFlat'')"
  have g: "?g = \<lparr>limit = 10, consumed = 4, costBreakdownEnabled = True,
                 report = Some [''ReadFlat'' \<mapsto> 4]\<rparr>"
    by (simp add: basicGasMeter_ConsumeGas_def NewGasMeter_def addUint64Overflow_def
        MaxUint64_def index_GasReport_def)
  have h1: "costBreakdownEnabled ?g"
    by (simp add: g)
  have h2: "report ?g = Some [''ReadFlat'' \<mapsto> 4]"
    by (simp add: g)
  from ConsumeGas_report_on_success_only [OF h1 h2, of 7 "''ReadFlat''"] h1 h2 show ?thesis
    by (simp add: g)
qed

section \<open>Refunds\<close>

text \<open>
  Claim C7. For both meters, \<^verbatim>\<open>RefundGas(amount, descriptor)\<close> panics with
  \<open>ErrorNegativeGasConsumed\<close> carrying the descriptor if and only if
  \<open>amount > consumed\<close>. When \<open>amount \<le> consumed\<close>, \<open>consumed\<close> decreases by exactly
  \<open>amount\<close>; on a bounded meter with the breakdown disabled, and on the unbounded meter,
  nothing else changes and the call returns normally.
\<close>

theorem RefundGas_negative_iff:
  "(snd (basicGasMeter_RefundGas g amount descriptor) = Some (ErrorNegativeGasConsumed descriptor)
      \<longleftrightarrow> unat (basicGasMeter.consumed g) < unat amount)
   \<and> (unat amount \<le> unat (basicGasMeter.consumed g) \<longrightarrow>
        unat (basicGasMeter_GasConsumed (fst (basicGasMeter_RefundGas g amount descriptor)))
          = unat (basicGasMeter.consumed g) - unat amount)
   \<and> (unat amount \<le> unat (basicGasMeter.consumed g) \<and> \<not> costBreakdownEnabled g \<longrightarrow>
        basicGasMeter_RefundGas g amount descriptor
          = (g\<lparr>basicGasMeter.consumed := basicGasMeter.consumed g - amount\<rparr>, None))
   \<and> (snd (infiniteGasMeter_RefundGas h amount descriptor)
        = Some (ErrorNegativeGasConsumed descriptor)
      \<longleftrightarrow> unat (infiniteGasMeter.consumed h) < unat amount)
   \<and> (unat amount \<le> unat (infiniteGasMeter.consumed h) \<longrightarrow>
        infiniteGasMeter_RefundGas h amount descriptor
          = (h\<lparr>infiniteGasMeter.consumed := infiniteGasMeter.consumed h - amount\<rparr>, None)
        \<and> unat (infiniteGasMeter_GasConsumed (fst (infiniteGasMeter_RefundGas h amount descriptor)))
          = unat (infiniteGasMeter.consumed h) - unat amount)"
proof -
  have sub: "unat (c - amount) = unat c - unat amount" if "unat amount \<le> unat c" for c :: Gas
    using that by (simp add: unat_sub word_le_nat_alt)
  have b1: "snd (basicGasMeter_RefundGas g amount descriptor)
              = Some (ErrorNegativeGasConsumed descriptor)
            \<longleftrightarrow> unat (basicGasMeter.consumed g) < unat amount"
    by (simp add: basicGasMeter_RefundGas_def Let_def word_less_nat_alt split: option.splits)
  have b2: "unat (basicGasMeter_GasConsumed (fst (basicGasMeter_RefundGas g amount descriptor)))
              = unat (basicGasMeter.consumed g) - unat amount"
    if "unat amount \<le> unat (basicGasMeter.consumed g)"
    using that sub [OF that]
    by (simp add: basicGasMeter_RefundGas_def basicGasMeter_GasConsumed_def Let_def
        word_less_nat_alt split: option.splits)
  have b3: "basicGasMeter_RefundGas g amount descriptor
              = (g\<lparr>basicGasMeter.consumed := basicGasMeter.consumed g - amount\<rparr>, None)"
    if "unat amount \<le> unat (basicGasMeter.consumed g)" and "\<not> costBreakdownEnabled g"
    using that by (simp add: basicGasMeter_RefundGas_def Let_def word_less_nat_alt)
  have i1: "snd (infiniteGasMeter_RefundGas h amount descriptor)
              = Some (ErrorNegativeGasConsumed descriptor)
            \<longleftrightarrow> unat (infiniteGasMeter.consumed h) < unat amount"
    by (simp add: infiniteGasMeter_RefundGas_def word_less_nat_alt)
  have i2: "infiniteGasMeter_RefundGas h amount descriptor
              = (h\<lparr>infiniteGasMeter.consumed := infiniteGasMeter.consumed h - amount\<rparr>, None)
            \<and> unat (infiniteGasMeter_GasConsumed (fst (infiniteGasMeter_RefundGas h amount descriptor)))
              = unat (infiniteGasMeter.consumed h) - unat amount"
    if "unat amount \<le> unat (infiniteGasMeter.consumed h)"
    using that sub [OF that]
    by (simp add: infiniteGasMeter_RefundGas_def infiniteGasMeter_GasConsumed_def word_less_nat_alt)
  from b1 b2 b3 i1 i2 show ?thesis
    by blast
qed

theorem RefundGas_negative_iff_witness:
  "unat (3 :: Gas) \<le> unat (basicGasMeter.consumed (fst (basicGasMeter_ConsumeGas (NewGasMeter 10 False) 5 ''Has'')))
   \<and> \<not> costBreakdownEnabled (fst (basicGasMeter_ConsumeGas (NewGasMeter 10 False) 5 ''Has''))
   \<and> basicGasMeter_RefundGas (fst (basicGasMeter_ConsumeGas (NewGasMeter 10 False) 5 ''Has'')) 3 ''Delete''
       = (\<lparr>limit = 10, consumed = 2, costBreakdownEnabled = False, report = None\<rparr>, None)
   \<and> unat (3 :: Gas) \<le> unat (infiniteGasMeter.consumed \<lparr>infiniteGasMeter.consumed = 5\<rparr>)
   \<and> infiniteGasMeter_RefundGas \<lparr>infiniteGasMeter.consumed = 5\<rparr> 3 ''Delete''
       = (\<lparr>infiniteGasMeter.consumed = 2\<rparr>, None)
   \<and> unat (basicGasMeter.consumed (NewGasMeter 10 False)) < unat (1 :: Gas)
   \<and> snd (basicGasMeter_RefundGas (NewGasMeter 10 False) 1 ''Has'')
       = Some (ErrorNegativeGasConsumed ''Has'')
   \<and> unat (infiniteGasMeter.consumed NewInfiniteGasMeter) < unat (1 :: Gas)
   \<and> snd (infiniteGasMeter_RefundGas NewInfiniteGasMeter 1 ''Has'')
       = Some (ErrorNegativeGasConsumed ''Has'')"
proof -
  let ?g = "fst (basicGasMeter_ConsumeGas (NewGasMeter 10 False) 5 ''Has'')"
  have g: "?g = \<lparr>limit = 10, consumed = 5, costBreakdownEnabled = False, report = None\<rparr>"
    by (simp add: basicGasMeter_ConsumeGas_def NewGasMeter_def addUint64Overflow_def
        MaxUint64_def)
  have h1: "unat (3 :: Gas) \<le> unat (basicGasMeter.consumed ?g)"
    by (simp add: g)
  have h2: "\<not> costBreakdownEnabled ?g"
    by (simp add: g)
  have h3: "unat (3 :: Gas) \<le> unat (infiniteGasMeter.consumed \<lparr>infiniteGasMeter.consumed = 5\<rparr>)"
    by simp
  have h4: "unat (basicGasMeter.consumed (NewGasMeter 10 False)) < unat (1 :: Gas)"
    by (simp add: NewGasMeter_def)
  have h5: "unat (infiniteGasMeter.consumed NewInfiniteGasMeter) < unat (1 :: Gas)"
    by (simp add: NewInfiniteGasMeter_def)
  have ok: "basicGasMeter_RefundGas ?g 3 ''Delete''
              = (\<lparr>limit = 10, consumed = 2, costBreakdownEnabled = False, report = None\<rparr>, None)
            \<and> infiniteGasMeter_RefundGas \<lparr>infiniteGasMeter.consumed = 5\<rparr> 3 ''Delete''
              = (\<lparr>infiniteGasMeter.consumed = 2\<rparr>, None)"
    using RefundGas_negative_iff
      [of ?g 3 "''Delete''" "\<lparr>infiniteGasMeter.consumed = 5\<rparr>"] h1 h2 h3
    by (simp add: g)
  have bad: "snd (basicGasMeter_RefundGas (NewGasMeter 10 False) 1 ''Has'')
               = Some (ErrorNegativeGasConsumed ''Has'')
             \<and> snd (infiniteGasMeter_RefundGas NewInfiniteGasMeter 1 ''Has'')
               = Some (ErrorNegativeGasConsumed ''Has'')"
    using RefundGas_negative_iff [of "NewGasMeter 10 False" 1 "''Has''" NewInfiniteGasMeter] h4 h5
    by blast
  from ok bad h1 h2 h3 h4 h5 show ?thesis
    by blast
qed

text \<open>
  Claim C8. On a bounded meter with the breakdown enabled, a \<^verbatim>\<open>RefundGas\<close> with
  \<open>amount \<le> consumed\<close> and \<open>amount\<close> strictly above the entry that the report holds for
  the descriptor (\<open>m descriptor = Some entry\<close>; an absent descriptor counts as the entry
  \<open>0\<close>) returns normally and sets the entry to \<open>(entry - amount) mod 2 ^ 64\<close>, that is
  \<open>entry + 2 ^ 64 - amount\<close>: the unsigned entry wraps; it is not clamped, saturated or
  rejected.
\<close>

theorem RefundGas_report_wraps:
  assumes "costBreakdownEnabled g" and "report g = Some m"
    and "unat amount \<le> unat (basicGasMeter.consumed g)"
    and "m descriptor = Some entry \<or> (m descriptor = None \<and> entry = 0)"
    and "unat entry < unat amount"
  shows "basicGasMeter_RefundGas g amount descriptor
           = (g\<lparr>basicGasMeter.consumed := basicGasMeter.consumed g - amount,
                 report := Some (m(descriptor \<mapsto> entry - amount))\<rparr>,
              None)
         \<and> uint (entry - amount) = (uint entry - uint amount) mod 2 ^ 64
         \<and> unat (entry - amount) = unat entry + 2 ^ 64 - unat amount"
proof -
  have read: "index_GasReport m descriptor = entry"
    using assms(4) by (auto simp: index_GasReport_def)
  have run: "basicGasMeter_RefundGas g amount descriptor
           = (g\<lparr>basicGasMeter.consumed := basicGasMeter.consumed g - amount,
                 report := Some (m(descriptor \<mapsto> entry - amount))\<rparr>, None)"
    using assms(1-3)
    by (simp add: basicGasMeter_RefundGas_def Let_def word_less_nat_alt read)
  have modulo: "uint (entry - amount) = (uint entry - uint amount) mod 2 ^ 64"
    by (simp add: uint_word_ariths)
  have wrapped: "unat (entry - amount) = unat entry + 2 ^ 64 - unat amount"
    using assms(5) by (simp add: unat_sub_if')
  from run modulo wrapped show ?thesis
    by blast
qed

theorem RefundGas_report_wraps_witness:
  "costBreakdownEnabled
     (fst (basicGasMeter_ConsumeGas
            (fst (basicGasMeter_ConsumeGas (NewGasMeter 100 True) 10 ''ReadFlat''))
            2 ''WriteFlat''))
   \<and> report
       (fst (basicGasMeter_ConsumeGas
              (fst (basicGasMeter_ConsumeGas (NewGasMeter 100 True) 10 ''ReadFlat''))
              2 ''WriteFlat''))
       = Some [''ReadFlat'' \<mapsto> 10, ''WriteFlat'' \<mapsto> 2]
   \<and> unat (3 :: Gas)
       \<le> unat (basicGasMeter.consumed
                 (fst (basicGasMeter_ConsumeGas
                        (fst (basicGasMeter_ConsumeGas (NewGasMeter 100 True) 10 ''ReadFlat''))
                        2 ''WriteFlat'')))
   \<and> [''ReadFlat'' \<mapsto> 10, ''WriteFlat'' \<mapsto> 2 :: Gas] ''WriteFlat'' = Some 2
   \<and> unat (2 :: Gas) < unat (3 :: Gas)
   \<and> basicGasMeter_RefundGas
       (fst (basicGasMeter_ConsumeGas
              (fst (basicGasMeter_ConsumeGas (NewGasMeter 100 True) 10 ''ReadFlat''))
              2 ''WriteFlat''))
       3 ''WriteFlat''
     = (\<lparr>limit = 100, consumed = 9, costBreakdownEnabled = True,
         report = Some [''ReadFlat'' \<mapsto> 10, ''WriteFlat'' \<mapsto> 18446744073709551615]\<rparr>,
        None)
   \<and> [''ReadFlat'' \<mapsto> 10 :: Gas] ''Delete'' = None
   \<and> basicGasMeter_RefundGas
       (fst (basicGasMeter_ConsumeGas (NewGasMeter 100 True) 10 ''ReadFlat'')) 3 ''Delete''
     = (\<lparr>limit = 100, consumed = 7, costBreakdownEnabled = True,
         report = Some [''ReadFlat'' \<mapsto> 10, ''Delete'' \<mapsto> 18446744073709551613]\<rparr>,
        None)"
proof -
  let ?g1 = "fst (basicGasMeter_ConsumeGas (NewGasMeter 100 True) 10 ''ReadFlat'')"
  let ?g2 = "fst (basicGasMeter_ConsumeGas ?g1 2 ''WriteFlat'')"
  let ?m1 = "[''ReadFlat'' \<mapsto> 10 :: Gas]"
  let ?m2 = "[''ReadFlat'' \<mapsto> 10, ''WriteFlat'' \<mapsto> 2 :: Gas]"
  have g1: "?g1 = \<lparr>limit = 100, consumed = 10, costBreakdownEnabled = True, report = Some ?m1\<rparr>"
    by (simp add: basicGasMeter_ConsumeGas_def NewGasMeter_def addUint64Overflow_def
        MaxUint64_def index_GasReport_def)
  have g2: "?g2 = \<lparr>limit = 100, consumed = 12, costBreakdownEnabled = True, report = Some ?m2\<rparr>"
    unfolding g1
    by (simp add: basicGasMeter_ConsumeGas_def addUint64Overflow_def MaxUint64_def
        index_GasReport_def)
  have p1: "costBreakdownEnabled ?g2"
    by (simp add: g2)
  have p2: "report ?g2 = Some ?m2"
    by (simp add: g2)
  have p3: "unat (3 :: Gas) \<le> unat (basicGasMeter.consumed ?g2)"
    by (simp add: g2)
  have p4: "?m2 ''WriteFlat'' = Some 2"
    by simp
  have p5: "unat (2 :: Gas) < unat (3 :: Gas)"
    by simp
  have a1: "costBreakdownEnabled ?g1"
    by (simp add: g1)
  have a2: "report ?g1 = Some ?m1"
    by (simp add: g1)
  have a3: "unat (3 :: Gas) \<le> unat (basicGasMeter.consumed ?g1)"
    by (simp add: g1)
  have a4: "?m1 ''Delete'' = None"
    by simp
  have a5: "unat (0 :: Gas) < unat (3 :: Gas)"
    by simp
  have v1: "(18446744073709551615 :: Gas) = - 1"
    by simp
  have v3: "(18446744073709551613 :: Gas) = - 3"
    by simp
  have present: "basicGasMeter_RefundGas ?g2 3 ''WriteFlat''
     = (\<lparr>limit = 100, consumed = 9, costBreakdownEnabled = True,
         report = Some [''ReadFlat'' \<mapsto> 10, ''WriteFlat'' \<mapsto> 18446744073709551615]\<rparr>,
        None)"
    using RefundGas_report_wraps [OF p1 p2 p3 _ p5, of "''WriteFlat''"] p4
    by (simp add: g2 v1)
  have absent: "basicGasMeter_RefundGas ?g1 3 ''Delete''
     = (\<lparr>limit = 100, consumed = 7, costBreakdownEnabled = True,
         report = Some [''ReadFlat'' \<mapsto> 10, ''Delete'' \<mapsto> 18446744073709551613]\<rparr>,
        None)"
    using RefundGas_report_wraps [OF a1 a2 a3 _ a5, of "''Delete''"] a4
    by (simp add: g1 v3)
  from p1 p2 p3 p4 p5 present a4 absent show ?thesis
    by blast
qed

text \<open>
  Claim C9. For both meters, a \<^verbatim>\<open>RefundGas\<close> with \<open>amount > consumed\<close> panics with
  \<open>ErrorNegativeGasConsumed\<close> and returns the meter as it was; and whenever \<^verbatim>\<open>RefundGas\<close>
  panics with \<open>ErrorNegativeGasConsumed\<close>, the whole meter, \<open>consumed\<close> and every report
  entry, is unchanged.
\<close>

theorem RefundGas_negative_atomic:
  "(basicGasMeter.consumed g < amount \<longrightarrow>
      basicGasMeter_RefundGas g amount descriptor = (g, Some (ErrorNegativeGasConsumed descriptor)))
   \<and> (\<forall>d. snd (basicGasMeter_RefundGas g amount descriptor) = Some (ErrorNegativeGasConsumed d)
        \<longrightarrow> fst (basicGasMeter_RefundGas g amount descriptor) = g)
   \<and> (infiniteGasMeter.consumed h < amount \<longrightarrow>
      infiniteGasMeter_RefundGas h amount descriptor
        = (h, Some (ErrorNegativeGasConsumed descriptor)))
   \<and> (\<forall>d. snd (infiniteGasMeter_RefundGas h amount descriptor) = Some (ErrorNegativeGasConsumed d)
        \<longrightarrow> fst (infiniteGasMeter_RefundGas h amount descriptor) = h)"
  by (simp add: basicGasMeter_RefundGas_def infiniteGasMeter_RefundGas_def Let_def
      split: option.splits)

theorem RefundGas_negative_atomic_witness:
  "basicGasMeter.consumed
     \<lparr>limit = 10, consumed = 4, costBreakdownEnabled = True, report = Some [''ReadFlat'' \<mapsto> 4]\<rparr>
     < (5 :: Gas)
   \<and> basicGasMeter_RefundGas
       \<lparr>limit = 10, consumed = 4, costBreakdownEnabled = True, report = Some [''ReadFlat'' \<mapsto> 4]\<rparr>
       5 ''ReadFlat''
     = (\<lparr>limit = 10, consumed = 4, costBreakdownEnabled = True,
         report = Some [''ReadFlat'' \<mapsto> 4]\<rparr>, Some (ErrorNegativeGasConsumed ''ReadFlat''))
   \<and> infiniteGasMeter.consumed \<lparr>infiniteGasMeter.consumed = 4\<rparr> < (5 :: Gas)
   \<and> infiniteGasMeter_RefundGas \<lparr>infiniteGasMeter.consumed = 4\<rparr> 5 ''ReadFlat''
     = (\<lparr>infiniteGasMeter.consumed = 4\<rparr>, Some (ErrorNegativeGasConsumed ''ReadFlat''))"
proof -
  have h1: "basicGasMeter.consumed
     \<lparr>limit = 10, consumed = 4, costBreakdownEnabled = True, report = Some [''ReadFlat'' \<mapsto> 4]\<rparr>
     < (5 :: Gas)"
    by simp
  have h2: "infiniteGasMeter.consumed \<lparr>infiniteGasMeter.consumed = 4\<rparr> < (5 :: Gas)"
    by simp
  from RefundGas_negative_atomic
    [of "\<lparr>limit = 10, consumed = 4, costBreakdownEnabled = True,
          report = Some [''ReadFlat'' \<mapsto> 4]\<rparr>" 5 "''ReadFlat''"
        "\<lparr>infiniteGasMeter.consumed = 4\<rparr>"] h1 h2
  show ?thesis
    by blast
qed

section \<open>Cost configuration tables\<close>

text \<open>
  Claim C10. \<^verbatim>\<open>KVGasConfig()\<close> and \<^verbatim>\<open>TransientGasConfig()\<close> take no argument and read no
  state, so each is a constant of the model: every call yields the same table. The tables
  are (HasCost, DeleteCost, ReadCostFlat, ReadCostPerByte, WriteCostFlat, WriteCostPerByte,
  IterNextCostFlat) = (1000, 1000, 1000, 3, 2000, 30, 30) for the persistent store and
  (100, 100, 100, 0, 200, 3, 3) for the transient store, read as unsigned numbers.
\<close>

theorem gas_config_tables:
  "map unat [HasCost KVGasConfig, DeleteCost KVGasConfig, ReadCostFlat KVGasConfig,
             ReadCostPerByte KVGasConfig, WriteCostFlat KVGasConfig,
             WriteCostPerByte KVGasConfig, IterNextCostFlat KVGasConfig]
     = [1000, 1000, 1000, 3, 2000, 30, 30]
   \<and> map unat [HasCost TransientGasConfig, DeleteCost TransientGasConfig,
                ReadCostFlat TransientGasConfig, ReadCostPerByte TransientGasConfig,
                WriteCostFlat TransientGasConfig, WriteCostPerByte TransientGasConfig,
                IterNextCostFlat TransientGasConfig]
     = [100, 100, 100, 0, 200, 3, 3]"
  by (simp add: KVGasConfig_def TransientGasConfig_def)

end
